theory Spec2Isabelle
  imports Complex_Main "HOL-Library.Product_Lexorder"
begin

section \<open>Calendar dates\<close>

text \<open>
  The engine works on \<^verbatim>\<open>datetime.date\<close> values: the normaliser stores
  \<^verbatim>\<open>pd.to_datetime(...).dt.date\<close> in the column \<^verbatim>\<open>date_reported\<close>, and
  \<^verbatim>\<open>asof\<close> is a \<^verbatim>\<open>dt.date\<close>. A date is its three fields; Python orders dates
  lexicographically on (year, month, day) and subtracts them through their proleptic
  Gregorian ordinals. Python floats are modelled as \<^typ>\<open>real\<close> throughout.
\<close>

datatype date = Date (year: nat) (month: nat) (day: nat)

definition date_key :: "date \<Rightarrow> nat \<times> nat \<times> nat" where
  "date_key d = (year d, month d, day d)"

definition date_le :: "date \<Rightarrow> date \<Rightarrow> bool" where
  "date_le a b \<longleftrightarrow> date_key a \<le> date_key b"

definition date_lt :: "date \<Rightarrow> date \<Rightarrow> bool" where
  "date_lt a b \<longleftrightarrow> date_key a < date_key b"

definition is_leap :: "nat \<Rightarrow> bool" where
  "is_leap y \<longleftrightarrow> y mod 4 = 0 \<and> (y mod 100 \<noteq> 0 \<or> y mod 400 = 0)"

definition days_in_month :: "nat \<Rightarrow> nat \<Rightarrow> nat" where
  "days_in_month y m =
     (if m = 2 then (if is_leap y then 29 else 28)
      else if m = 4 \<or> m = 6 \<or> m = 9 \<or> m = 11 then 30 else 31)"

definition days_before_year :: "nat \<Rightarrow> int" where
  "days_before_year y =
     (let y1 = int y - 1 in y1 * 365 + y1 div 4 - y1 div 100 + y1 div 400)"

definition days_before_month :: "nat \<Rightarrow> nat \<Rightarrow> int" where
  "days_before_month y m =
     (if m \<le> 1 then 0 else if m = 2 then 31
      else (if m = 3 then 59 else if m = 4 then 90 else if m = 5 then 120
            else if m = 6 then 151 else if m = 7 then 181 else if m = 8 then 212
            else if m = 9 then 243 else if m = 10 then 273 else if m = 11 then 304
            else 334) + (if is_leap y then 1 else 0))"

definition toordinal :: "date \<Rightarrow> int" where
  "toordinal d = days_before_year (year d) + days_before_month (year d) (month d) + int (day d)"

text \<open>\<^verbatim>\<open>(a - b).days\<close> for two dates.\<close>

definition date_diff_days :: "date \<Rightarrow> date \<Rightarrow> int" where
  "date_diff_days a b = toordinal a - toordinal b"

text \<open>
  \<^verbatim>\<open>_month_end(d) = pd.Timestamp(d).to_period("M").end_time.date()\<close>: the last day of
  the month of \<open>d\<close>.
\<close>

definition month_end :: "date \<Rightarrow> date" where
  "month_end d = Date (year d) (month d) (days_in_month (year d) (month d))"

text \<open>
  \<^verbatim>\<open>(pd.Timestamp(d) - pd.offsets.MonthBegin(1)).date()\<close>. An anchored offset
  subtracted from a timestamp that is not on the anchor rolls back to the previous
  anchor: a day after the first goes to the first of the same month; only the first of
  a month goes to the first of the month before.
\<close>

definition minus_MonthBegin :: "date \<Rightarrow> date" where
  "minus_MonthBegin d =
     (if 1 < day d then Date (year d) (month d) 1
      else if month d = 1 then Date (year d - 1) 12 1
      else Date (year d) (month d - 1) 1)"

section \<open>Tables\<close>

text \<open>
  A data frame is the list of its rows, in index order. The silver weekly table has the
  columns the normaliser keeps; \<open>stratum\<close> may be missing (\<open>None\<close>), which
  \<^verbatim>\<open>fillna("none")\<close> replaces.
\<close>

record weekly_row =
  date_reported :: date
  region :: string
  stratum :: "string option"
  working_gas_bcf :: real
  delta_week_bcf :: real

record ops_row =
  ops_date :: date
  ops_region :: string
  ops_stratum :: "string option"
  inj_bcf :: "real option"
  wd_bcf :: "real option"
  ops_notes :: string

record rollforward_row =
  rf_month_end :: date
  rf_region :: string
  rf_stratum :: string
  beg_working_gas_bcf :: real
  est_injections_bcf :: real
  est_withdrawals_bcf :: real
  gap_delta_bcf :: real
  rf_gap_days :: int
  end_working_gas_bcf :: real

record accrual_row =
  acc_month_end :: date
  acc_region :: string
  acc_stratum :: string
  acc_end_working_gas_bcf :: real
  inventory_accrual :: real
  variable_fees :: real
  fixed_demand :: real
  penalties_est :: real
  total_accrual_low :: real
  total_accrual_base :: real
  total_accrual_high :: real

text \<open>Exceptions the modelled code can raise.\<close>

datatype error = TypeError | IndexError

section \<open>Accrual calculator (\<^verbatim>\<open>accrual/calculator.py\<close>)\<close>

definition DEFAULT_BCF_TO_MMBTU :: real where
  "DEFAULT_BCF_TO_MMBTU = 1037000"

record AccrualInputs =
  wacog_per_mmbtu :: real
  bcf_to_mmbtu_factor :: real
  tariff_fixed_monthly :: real
  tariff_injection_per_mmbtu :: real
  tariff_withdrawal_per_mmbtu :: real
  scenario_band :: real
  penalty_probability :: real
  penalty_amount :: real

text \<open>The dataclass defaults: only \<^verbatim>\<open>wacog_per_mmbtu\<close> is mandatory.\<close>

definition AccrualInputs_default :: "real \<Rightarrow> AccrualInputs" where
  "AccrualInputs_default wacog =
     \<lparr>wacog_per_mmbtu = wacog, bcf_to_mmbtu_factor = DEFAULT_BCF_TO_MMBTU,
      tariff_fixed_monthly = 0, tariff_injection_per_mmbtu = 0,
      tariff_withdrawal_per_mmbtu = 0, scenario_band = 0.10,
      penalty_probability = 0, penalty_amount = 0\<rparr>"

definition inventory_value :: "real \<Rightarrow> AccrualInputs \<Rightarrow> real" where
  "inventory_value bcf ai = bcf * bcf_to_mmbtu_factor ai * wacog_per_mmbtu ai"

text \<open>
  \<^verbatim>\<open>calc_accruals\<close> works column by column, as the pandas code does: every new column
  is computed from whole columns, a scalar assigned to a column is broadcast to every
  row, and the last line keeps the columns of \<^verbatim>\<open>cols\<close>.
\<close>

definition calc_accruals :: "rollforward_row list \<Rightarrow> AccrualInputs \<Rightarrow> accrual_row list" where
  "calc_accruals monthly_roll ai =
     (let df = monthly_roll;
          inventory_accrual_col = map (\<lambda>x. inventory_value x ai) (map end_working_gas_bcf df);
          inj_mmbtu = map (\<lambda>x. x * bcf_to_mmbtu_factor ai) (map est_injections_bcf df);
          wd_mmbtu = map (\<lambda>x. x * bcf_to_mmbtu_factor ai) (map est_withdrawals_bcf df);
          variable_fees_col =
            map2 (+) (map (\<lambda>x. x * tariff_injection_per_mmbtu ai) inj_mmbtu)
                     (map (\<lambda>x. x * tariff_withdrawal_per_mmbtu ai) wd_mmbtu);
          fixed_demand_col = replicate (length df) (tariff_fixed_monthly ai);
          penalties_est_col = replicate (length df) (penalty_probability ai * penalty_amount ai);
          total_accrual_base_col =
            map2 (+) (map2 (+) (map2 (+) inventory_accrual_col variable_fees_col)
                               fixed_demand_col) penalties_est_col;
          band = scenario_band ai;
          total_accrual_low_col = map (\<lambda>x. x * (1 - band)) total_accrual_base_col;
          total_accrual_high_col = map (\<lambda>x. x * (1 + band)) total_accrual_base_col
      in map (\<lambda>i.
           \<lparr>acc_month_end = rf_month_end (df ! i),
            acc_region = rf_region (df ! i),
            acc_stratum = rf_stratum (df ! i),
            acc_end_working_gas_bcf = end_working_gas_bcf (df ! i),
            inventory_accrual = inventory_accrual_col ! i,
            variable_fees = variable_fees_col ! i,
            fixed_demand = fixed_demand_col ! i,
            penalties_est = penalties_est_col ! i,
            total_accrual_low = total_accrual_low_col ! i,
            total_accrual_base = total_accrual_base_col ! i,
            total_accrual_high = total_accrual_high_col ! i\<rparr>) [0..<length df])"

section \<open>Gap estimators (\<^verbatim>\<open>accrual/methods.py\<close>)\<close>

text \<open>
  \<^verbatim>\<open>stratum or "none"\<close>: the argument is \<^verbatim>\<open>Optional[str]\<close>, and both
  \<^verbatim>\<open>None\<close> and the empty string are falsy. \<^verbatim>\<open>fillna("none")\<close> on the column
  replaces only a missing value.
\<close>

definition or_none :: "string option \<Rightarrow> string" where
  "or_none s = (case s of None \<Rightarrow> ''none'' | Some t \<Rightarrow> (if t = [] then ''none'' else t))"

definition fillna_none :: "string option \<Rightarrow> string" where
  "fillna_none s = (case s of None \<Rightarrow> ''none'' | Some t \<Rightarrow> t)"

definition fillna0 :: "real option \<Rightarrow> real" where
  "fillna0 v = (case v of None \<Rightarrow> 0 | Some x \<Rightarrow> x)"

text \<open>
  \<^verbatim>\<open>sort_values("date_reported")\<close> is modelled by the stable insertion sort
  \<^const>\<open>sort_key\<close> on the date order; rows of one group carry distinct dates
  (the key of a weekly observation is region, stratum and date).
\<close>

definition select_series :: "weekly_row list \<Rightarrow> string \<Rightarrow> string option \<Rightarrow> weekly_row list" where
  "select_series weekly reg strat =
     (let w = filter (\<lambda>r. region r = reg \<and> fillna_none (stratum r) = or_none strat) weekly
      in sort_key (\<lambda>r. date_key (date_reported r)) w)"

text \<open>
  \<^verbatim>\<open>pd.to_datetime(col.max()).date()\<close>: the maximum of an empty column is NaN, which
  \<^verbatim>\<open>pd.to_datetime\<close> turns into \<^verbatim>\<open>NaT\<close>, and \<^verbatim>\<open>NaT.date()\<close> is \<^verbatim>\<open>NaT\<close>
  again. \<open>None\<close> stands for \<^verbatim>\<open>NaT\<close>.
\<close>

fun date_max :: "date list \<Rightarrow> date option" where
  "date_max [] = None"
| "date_max (d # ds) =
     (case date_max ds of None \<Rightarrow> Some d
      | Some m \<Rightarrow> Some (if date_le m d then d else m))"

text \<open>
  \<^verbatim>\<open>_gap_days(last_friday, month_end) = max((month_end - last_friday).days, 0)\<close>.
  Subtracting \<^verbatim>\<open>NaT\<close> from a \<^verbatim>\<open>datetime.date\<close> is a \<^verbatim>\<open>TypeError\<close>.
\<close>

definition gap_days :: "date option \<Rightarrow> date \<Rightarrow> error + int" where
  "gap_days last_friday me =
     (case last_friday of None \<Rightarrow> Inl TypeError
      | Some lf \<Rightarrow> Inr (max (date_diff_days me lf) 0))"

text \<open>
  \<^verbatim>\<open>DataFrame.tail(n)\<close>: no row for \<open>n = 0\<close>, the last \<open>n\<close> rows for a positive
  \<open>n\<close>, and all rows but the first \<open>|n|\<close> for a negative one.
\<close>

definition tail_df :: "int \<Rightarrow> 'a list \<Rightarrow> 'a list" where
  "tail_df n xs =
     (if n = 0 then []
      else if 0 < n then drop (length xs - nat n) xs
      else drop (nat (- n)) xs)"

record MethodA =
  lookback_weeks :: int

definition MethodA_default :: MethodA where
  "MethodA_default = \<lparr>lookback_weeks = 4\<rparr>"

definition MethodA_estimate_gap ::
  "MethodA \<Rightarrow> weekly_row list \<Rightarrow> date \<Rightarrow> string \<Rightarrow> string option \<Rightarrow> error + real" where
  "MethodA_estimate_gap self weekly asof reg strat =
     (let sr = select_series weekly reg strat;
          sr = filter (\<lambda>r. date_le (date_reported r) asof) sr
      in if sr = [] then Inr 0
         else
           let last_friday = date_max (map date_reported sr);
               me = month_end asof
           in case gap_days last_friday me of
                Inl e \<Rightarrow> Inl e
              | Inr g \<Rightarrow>
                  let tail = tail_df (lookback_weeks self) sr
                  in if tail = [] then Inr 0
                     else
                       let avg_daily = sum_list (map delta_week_bcf tail) / (7 * real (length tail))
                       in Inr (avg_daily * real_of_int g))"

text \<open>
  Estimator B has no field. \<^verbatim>\<open>groupby("month")["daily_rate"].mean()\<close> is the map from
  each calendar month number that occurs to the mean of the daily rates of its rows.
\<close>

datatype MethodB = MethodB

definition month_avg :: "weekly_row list \<Rightarrow> nat \<rightharpoonup> real" where
  "month_avg sr m =
     (let rates = map (\<lambda>r. delta_week_bcf r / 7) (filter (\<lambda>r. month (date_reported r) = m) sr)
      in if rates = [] then None else Some (sum_list rates / real (length rates)))"

definition MethodB_estimate_gap ::
  "MethodB \<Rightarrow> weekly_row list \<Rightarrow> date \<Rightarrow> string \<Rightarrow> string option \<Rightarrow> error + real" where
  "MethodB_estimate_gap self weekly asof reg strat =
     (let sr = select_series weekly reg strat;
          sr = filter (\<lambda>r. date_le (date_reported r) asof) sr
      in if sr = [] then Inr 0
         else
           let last_friday = date_max (map date_reported sr);
               me = month_end asof
           in case gap_days last_friday me of
                Inl e \<Rightarrow> Inl e
              | Inr g \<Rightarrow>
                  (case month_avg sr (month asof) of
                     Some rate \<Rightarrow> Inr (rate * real_of_int g)
                   | None \<Rightarrow> Inr 0))"

text \<open>
  Estimator C reads the operational ledger from the file \<^verbatim>\<open>ops_path\<close>. The file
  system is outside the arguments of the call: it is a map from paths to the rows of the
  file there, and a path without a file makes \<^verbatim>\<open>pd.read_csv\<close> raise
  \<^verbatim>\<open>FileNotFoundError\<close>, which the estimator catches.

  \<^verbatim>\<open>month_end <= last_friday\<close> with \<^verbatim>\<open>last_friday = NaT\<close> raises
  \<^verbatim>\<open>TypeError\<close> (pandas 2 refuses to order \<^verbatim>\<open>NaT\<close> against a \<^verbatim>\<open>datetime.date\<close>).
\<close>

type_synonym filesystem = "string \<rightharpoonup> ops_row list"

record MethodC =
  ops_path :: string

definition MethodC_default :: MethodC where
  "MethodC_default = \<lparr>ops_path = ''data/ops/ops_volumes.csv''\<rparr>"

definition MethodC_estimate_gap ::
  "filesystem \<Rightarrow> MethodC \<Rightarrow> weekly_row list \<Rightarrow> date \<Rightarrow> string \<Rightarrow> string option \<Rightarrow> error + real" where
  "MethodC_estimate_gap fs self weekly asof reg strat =
     (let sr = select_series weekly reg strat
      in if sr = [] then Inr 0
         else
           case date_max (map date_reported (filter (\<lambda>r. date_le (date_reported r) asof) sr)) of
             None \<Rightarrow> Inl TypeError
           | Some last_friday \<Rightarrow>
               let me = month_end asof
               in if date_le me last_friday then Inr 0
                  else
                    case fs (ops_path self) of
                      None \<Rightarrow> Inr 0
                    | Some ops \<Rightarrow>
                        let ops = filter (\<lambda>r. date_lt last_friday (ops_date r) \<and> date_le (ops_date r) me) ops;
                            ops = filter (\<lambda>r. ops_region r = reg \<and> fillna_none (ops_stratum r) = or_none strat) ops
                        in if ops = [] then Inr 0
                           else Inr (sum_list (map (\<lambda>r. fillna0 (inj_bcf r)) ops)
                                     - sum_list (map (\<lambda>r. fillna0 (wd_bcf r)) ops)))"

text \<open>\<^verbatim>\<open>dict.get(key, default)\<close>.\<close>

definition dict_get :: "('k \<rightharpoonup> 'v) \<Rightarrow> 'k \<Rightarrow> 'v \<Rightarrow> 'v" where
  "dict_get m k d = (case m k of None \<Rightarrow> d | Some v \<Rightarrow> v)"

record BlendedEstimator =
  weights :: "string \<rightharpoonup> real"
  mA :: MethodA
  mB :: MethodB
  mC :: MethodC

definition BlendedEstimator_estimate_gap ::
  "filesystem \<Rightarrow> BlendedEstimator \<Rightarrow> weekly_row list \<Rightarrow> date \<Rightarrow> string \<Rightarrow> string option
     \<Rightarrow> error + real" where
  "BlendedEstimator_estimate_gap fs self weekly asof reg strat =
     (case MethodA_estimate_gap (mA self) weekly asof reg strat of
        Inl e \<Rightarrow> Inl e
      | Inr a \<Rightarrow>
     (case MethodB_estimate_gap (mB self) weekly asof reg strat of
        Inl e \<Rightarrow> Inl e
      | Inr b \<Rightarrow>
     (case MethodC_estimate_gap fs (mC self) weekly asof reg strat of
        Inl e \<Rightarrow> Inl e
      | Inr c \<Rightarrow>
          let wA = dict_get (weights self) ''A'' 0.3;
              wB = dict_get (weights self) ''B'' 0.2;
              wC = dict_get (weights self) ''C'' 0.5
          in Inr (wA * a + wB * b + wC * c))))"

section \<open>Rollforward builder (\<^verbatim>\<open>transform/build_gold.py\<close>)\<close>

definition last_reported_friday :: "weekly_row list \<Rightarrow> date \<Rightarrow> date option" where
  "last_reported_friday sr asof =
     date_max (map date_reported (filter (\<lambda>r. date_le (date_reported r) asof) sr))"

text \<open>
  \<^verbatim>\<open>float(col.tail(1).squeeze())\<close>: \<^verbatim>\<open>squeeze\<close> turns a column of one value into that
  value and leaves an empty column as it is, and \<^verbatim>\<open>float\<close> of an empty column raises
  \<^verbatim>\<open>TypeError\<close>.
\<close>

definition float_tail1_squeeze :: "real list \<Rightarrow> error + real" where
  "float_tail1_squeeze col =
     (case tail_df 1 col of [x] \<Rightarrow> Inr x | _ \<Rightarrow> Inl TypeError)"

text \<open>\<^verbatim>\<open>weights[i]\<close> on the tuple of weights.\<close>

definition weights_item :: "real list \<Rightarrow> nat \<Rightarrow> error + real" where
  "weights_item ws i = (if i < length ws then Inr (ws ! i) else Inl IndexError)"

definition default_weights :: "real list" where
  "default_weights = [0.3, 0.2, 0.5]"

text \<open>
  The builder returns a table of one row. Its steps run in the order of the source, and
  the first one that raises ends the call: the beginning volume, the in-month flows, the
  gap-day count \<^verbatim>\<open>max((me - last_fri).days, 0)\<close> (the expression of
  \<^verbatim>\<open>_gap_days\<close>, written out in the source), the three weights, the blended
  estimate. The estimators are built with their defaults.
\<close>

definition build_monthly_rollforward ::
  "filesystem \<Rightarrow> weekly_row list \<Rightarrow> date \<Rightarrow> real list \<Rightarrow> string \<Rightarrow> string option
     \<Rightarrow> error + rollforward_row list" where
  "build_monthly_rollforward fs weekly_silver asof ws reg strat =
     (let sr = filter (\<lambda>r. region r = reg \<and> fillna_none (stratum r) = or_none strat) weekly_silver;
          sr = sort_key (\<lambda>r. date_key (date_reported r)) sr;
          me = month_end asof;
          prev_me = month_end (minus_MonthBegin me)
      in case (if sr \<noteq> []
               then float_tail1_squeeze
                      (map working_gas_bcf (filter (\<lambda>r. date_le (date_reported r) prev_me) sr))
               else Inr 0) of
           Inl e \<Rightarrow> Inl e
         | Inr beg \<Rightarrow>
     (let in_month = filter (\<lambda>r. year (date_reported r) = year me
                                 \<and> month (date_reported r) = month me) sr;
          inj = sum_list (map delta_week_bcf (filter (\<lambda>r. 0 < delta_week_bcf r) in_month));
          wd = - sum_list (map delta_week_bcf (filter (\<lambda>r. delta_week_bcf r < 0) in_month));
          last_fri = last_reported_friday sr asof
      in case gap_days last_fri me of
           Inl e \<Rightarrow> Inl e
         | Inr gd \<Rightarrow>
     (case weights_item ws 0 of Inl e \<Rightarrow> Inl e | Inr w0 \<Rightarrow>
     (case weights_item ws 1 of Inl e \<Rightarrow> Inl e | Inr w1 \<Rightarrow>
     (case weights_item ws 2 of Inl e \<Rightarrow> Inl e | Inr w2 \<Rightarrow>
     (let est = \<lparr>weights = [''A'' \<mapsto> w0, ''B'' \<mapsto> w1, ''C'' \<mapsto> w2],
                 mA = MethodA_default, mB = MethodB, mC = MethodC_default\<rparr>
      in case BlendedEstimator_estimate_gap fs est weekly_silver asof reg strat of
           Inl e \<Rightarrow> Inl e
         | Inr gap_delta \<Rightarrow>
             let end_est = beg + inj - wd + gap_delta
             in Inr [\<lparr>rf_month_end = me, rf_region = reg, rf_stratum = or_none strat,
                      beg_working_gas_bcf = beg, est_injections_bcf = inj,
                      est_withdrawals_bcf = wd, gap_delta_bcf = gap_delta,
                      rf_gap_days = gd, end_working_gas_bcf = end_est\<rparr>]))))))"

section \<open>Sample data\<close>

text \<open>
  Weekly observations of the aggregate US series (25 July, 1 and 22 August and
  5 September 2025), an observation of another region, a ledger file with two days of
  injections at the end of August, as the seeding script writes it, and one rollforward
  row with accrual inputs.
\<close>

definition obs_jul25 :: weekly_row where
  "obs_jul25 = \<lparr>date_reported = Date 2025 7 25, region = ''US'', stratum = Some ''none'',
                 working_gas_bcf = 3100, delta_week_bcf = 0\<rparr>"

definition obs_aug01 :: weekly_row where
  "obs_aug01 = \<lparr>date_reported = Date 2025 8 1, region = ''US'', stratum = Some ''none'',
                 working_gas_bcf = 3150, delta_week_bcf = 50\<rparr>"

definition obs_aug22 :: weekly_row where
  "obs_aug22 = \<lparr>date_reported = Date 2025 8 22, region = ''US'', stratum = Some ''none'',
                 working_gas_bcf = 3180, delta_week_bcf = 30\<rparr>"

definition obs_sep05 :: weekly_row where
  "obs_sep05 = \<lparr>date_reported = Date 2025 9 5, region = ''US'', stratum = Some ''none'',
                 working_gas_bcf = 3200, delta_week_bcf = 20\<rparr>"

definition obs_east :: weekly_row where
  "obs_east = \<lparr>date_reported = Date 2025 8 1, region = ''East'', stratum = Some ''none'',
                working_gas_bcf = 800, delta_week_bcf = 10\<rparr>"

definition sample_weekly :: "weekly_row list" where
  "sample_weekly = [obs_aug01, obs_jul25]"

definition sample_ops :: "ops_row list" where
  "sample_ops =
     [\<lparr>ops_date = Date 2025 8 30, ops_region = ''US'', ops_stratum = Some ''none'',
       inj_bcf = Some 0.08, wd_bcf = Some 0, ops_notes = ''gap inj''\<rparr>,
      \<lparr>ops_date = Date 2025 8 31, ops_region = ''US'', ops_stratum = Some ''none'',
       inj_bcf = Some 0.05, wd_bcf = Some 0, ops_notes = ''gap inj''\<rparr>]"

definition fs_without_ledger :: filesystem where
  "fs_without_ledger = Map.empty"

definition fs_with_ledger :: filesystem where
  "fs_with_ledger = [''data/ops/ops_volumes.csv'' \<mapsto> sample_ops]"

definition fs_with_ledger_and_other :: filesystem where
  "fs_with_ledger_and_other =
     [''data/ops/ops_volumes.csv'' \<mapsto> sample_ops, ''data/ops/other.csv'' \<mapsto> []]"

definition sample_roll :: "rollforward_row list" where
  "sample_roll =
     [\<lparr>rf_month_end = Date 2025 8 31, rf_region = ''US'', rf_stratum = ''none'',
       beg_working_gas_bcf = 3100, est_injections_bcf = 0.25, est_withdrawals_bcf = 0.05,
       gap_delta_bcf = 197.8, rf_gap_days = 30, end_working_gas_bcf = 3298\<rparr>]"

definition sample_inputs :: AccrualInputs where
  "sample_inputs =
     \<lparr>wacog_per_mmbtu = 3.25, bcf_to_mmbtu_factor = DEFAULT_BCF_TO_MMBTU,
      tariff_fixed_monthly = 120000, tariff_injection_per_mmbtu = 0.02,
      tariff_withdrawal_per_mmbtu = 0.03, scenario_band = 0.10,
      penalty_probability = 0, penalty_amount = 0\<rparr>"

section \<open>Properties of the accrual calculator\<close>

lemma calc_accruals_length: "length (calc_accruals roll ai) = length roll"
  by (simp add: calc_accruals_def Let_def)

lemma calc_accruals_nth:
  assumes "i < length roll"
  shows "calc_accruals roll ai ! i =
     (let r = roll ! i;
          inv = end_working_gas_bcf r * bcf_to_mmbtu_factor ai * wacog_per_mmbtu ai;
          var = est_injections_bcf r * bcf_to_mmbtu_factor ai * tariff_injection_per_mmbtu ai
              + est_withdrawals_bcf r * bcf_to_mmbtu_factor ai * tariff_withdrawal_per_mmbtu ai;
          base = inv + var + tariff_fixed_monthly ai + penalty_probability ai * penalty_amount ai
      in \<lparr>acc_month_end = rf_month_end r, acc_region = rf_region r,
          acc_stratum = rf_stratum r, acc_end_working_gas_bcf = end_working_gas_bcf r,
          inventory_accrual = inv, variable_fees = var,
          fixed_demand = tariff_fixed_monthly ai,
          penalties_est = penalty_probability ai * penalty_amount ai,
          total_accrual_low = base * (1 - scenario_band ai),
          total_accrual_base = base,
          total_accrual_high = base * (1 + scenario_band ai)\<rparr>)"
  using assms by (simp add: calc_accruals_def Let_def inventory_value_def)

text \<open>
  C2. Every row that \<^verbatim>\<open>calc_accruals\<close> returns, for any rollforward table and any
  accrual inputs, has \<open>total_accrual_low = total_accrual_base * (1 - scenario_band)\<close>
  and \<open>total_accrual_high = total_accrual_base * (1 + scenario_band)\<close>.
\<close>

theorem calc_accruals_band:
  assumes "a \<in> set (calc_accruals roll ai)"
  shows "total_accrual_low a = total_accrual_base a * (1 - scenario_band ai)
       \<and> total_accrual_high a = total_accrual_base a * (1 + scenario_band ai)"
proof -
  from assms obtain i where i: "i < length roll" and a: "a = calc_accruals roll ai ! i"
    by (auto simp: in_set_conv_nth calc_accruals_length)
  show ?thesis
    unfolding a calc_accruals_nth [OF i] by (simp add: Let_def)
qed

lemma sample_accruals_nonempty: "calc_accruals sample_roll sample_inputs \<noteq> []"
  using calc_accruals_length [of sample_roll sample_inputs]
  by (auto simp: sample_roll_def)

theorem calc_accruals_band_witness:
  "hd (calc_accruals sample_roll sample_inputs) \<in> set (calc_accruals sample_roll sample_inputs)
   \<and> total_accrual_low (hd (calc_accruals sample_roll sample_inputs))
       = total_accrual_base (hd (calc_accruals sample_roll sample_inputs)) * (1 - 0.10)
   \<and> total_accrual_high (hd (calc_accruals sample_roll sample_inputs))
       = total_accrual_base (hd (calc_accruals sample_roll sample_inputs)) * (1 + 0.10)"
proof -
  have mem: "hd (calc_accruals sample_roll sample_inputs) \<in> set (calc_accruals sample_roll sample_inputs)"
    using sample_accruals_nonempty by simp
  show ?thesis
    using mem calc_accruals_band [OF mem] by (simp add: sample_inputs_def)
qed

text \<open>
  C3. For every row of the rollforward table and any accrual inputs, the row of
  \<^verbatim>\<open>calc_accruals\<close> at the same position has
  \<open>inventory_accrual = end_working_gas_bcf * bcf_to_mmbtu_factor * wacog_per_mmbtu\<close>,
  \<open>variable_fees = est_injections_bcf * factor * tariff_injection_per_mmbtu +
  est_withdrawals_bcf * factor * tariff_withdrawal_per_mmbtu\<close>,
  \<open>fixed_demand = tariff_fixed_monthly\<close>,
  \<open>penalties_est = penalty_probability * penalty_amount\<close>, and
  \<open>total_accrual_base\<close> the sum of these four; the table keeps its number of rows.
\<close>

theorem calc_accruals_lines:
  assumes "i < length roll"
  shows "length (calc_accruals roll ai) = length roll
       \<and> inventory_accrual (calc_accruals roll ai ! i)
           = end_working_gas_bcf (roll ! i) * bcf_to_mmbtu_factor ai * wacog_per_mmbtu ai
       \<and> variable_fees (calc_accruals roll ai ! i)
           = est_injections_bcf (roll ! i) * bcf_to_mmbtu_factor ai * tariff_injection_per_mmbtu ai
           + est_withdrawals_bcf (roll ! i) * bcf_to_mmbtu_factor ai * tariff_withdrawal_per_mmbtu ai
       \<and> fixed_demand (calc_accruals roll ai ! i) = tariff_fixed_monthly ai
       \<and> penalties_est (calc_accruals roll ai ! i) = penalty_probability ai * penalty_amount ai
       \<and> total_accrual_base (calc_accruals roll ai ! i)
           = inventory_accrual (calc_accruals roll ai ! i) + variable_fees (calc_accruals roll ai ! i)
           + fixed_demand (calc_accruals roll ai ! i) + penalties_est (calc_accruals roll ai ! i)"
  unfolding calc_accruals_nth [OF assms] by (simp add: Let_def calc_accruals_length)

theorem calc_accruals_lines_witness:
  "(0::nat) < length sample_roll
   \<and> inventory_accrual (calc_accruals sample_roll sample_inputs ! 0) = 3298 * 1037000 * 3.25
   \<and> variable_fees (calc_accruals sample_roll sample_inputs ! 0)
       = 0.25 * 1037000 * 0.02 + 0.05 * 1037000 * 0.03
   \<and> fixed_demand (calc_accruals sample_roll sample_inputs ! 0) = 120000
   \<and> penalties_est (calc_accruals sample_roll sample_inputs ! 0) = 0
   \<and> total_accrual_base (calc_accruals sample_roll sample_inputs ! 0)
       = 3298 * 1037000 * 3.25 + (0.25 * 1037000 * 0.02 + 0.05 * 1037000 * 0.03) + 120000 + 0"
proof -
  have len: "(0::nat) < length sample_roll" by (simp add: sample_roll_def)
  show ?thesis
    using len calc_accruals_lines [OF len, of sample_inputs]
    by (simp add: sample_roll_def sample_inputs_def DEFAULT_BCF_TO_MMBTU_def)
qed

section \<open>Evaluation rules\<close>

lemmas date_defs = date_key_def date_le_def date_lt_def month_end_def days_in_month_def
  is_leap_def minus_MonthBegin_def date_diff_days_def toordinal_def days_before_year_def
  days_before_month_def

lemmas estimator_defs = select_series_def fillna_none_def or_none_def fillna0_def gap_days_def
  tail_df_def MethodA_estimate_gap_def MethodB_estimate_gap_def MethodC_estimate_gap_def
  MethodA_default_def MethodC_default_def month_avg_def dict_get_def
  BlendedEstimator_estimate_gap_def

lemmas builder_defs = build_monthly_rollforward_def float_tail1_squeeze_def
  last_reported_friday_def weights_item_def default_weights_def

lemmas sample_defs = obs_jul25_def obs_aug01_def obs_aug22_def obs_sep05_def obs_east_def
  sample_weekly_def sample_ops_def fs_without_ledger_def fs_with_ledger_def
  fs_with_ledger_and_other_def

section \<open>Properties of the date order and of the selection\<close>

lemma date_key_inj: "date_key a = date_key b \<Longrightarrow> a = b"
  by (cases a; cases b) (simp add: date_key_def)

lemma date_le_antisym: "date_le a b \<Longrightarrow> date_le b a \<Longrightarrow> a = b"
  unfolding date_le_def by (rule date_key_inj) (rule antisym)

lemma date_le_refl: "date_le a a"
  by (simp add: date_le_def)

lemma date_le_trans: "date_le a b \<Longrightarrow> date_le b c \<Longrightarrow> date_le a c"
  unfolding date_le_def by (rule order_trans)

lemma date_le_total: "date_le a b \<or> date_le b a"
  unfolding date_le_def by (rule linear)

lemma date_max_None_iff: "date_max ds = None \<longleftrightarrow> ds = []"
  by (induction ds) (auto split: option.splits)

lemma date_max_mem: "date_max ds = Some m \<Longrightarrow> m \<in> set ds"
  by (induction ds arbitrary: m) (auto split: option.splits if_splits)

lemma date_max_upper: "date_max ds = Some m \<Longrightarrow> d \<in> set ds \<Longrightarrow> date_le d m"
proof (induction ds arbitrary: m)
  case Nil
  then show ?case by simp
next
  case (Cons x xs)
  show ?case
  proof (cases "date_max xs")
    case None
    then have "xs = []" by (simp add: date_max_None_iff)
    with Cons.prems None show ?thesis by (simp add: date_le_refl)
  next
    case (Some m')
    from Cons.prems(1) Some have m: "m = (if date_le m' x then x else m')" by simp
    show ?thesis
    proof (cases "d = x")
      case True
      with m date_le_total [of m' x] show ?thesis by (auto simp: date_le_refl)
    next
      case False
      with Cons.prems(2) have "d \<in> set xs" by simp
      with Cons.IH [OF Some] have "date_le d m'" by simp
      with m show ?thesis by (auto intro: date_le_trans date_le_refl)
    qed
  qed
qed

lemma date_max_unique:
  assumes "date_max ds = Some m" "l \<in> set ds" "\<forall>d\<in>set ds. date_le d l"
  shows "m = l"
proof -
  from assms(1) have "m \<in> set ds" by (rule date_max_mem)
  with assms(3) have "date_le m l" by simp
  moreover from assms(1,2) have "date_le l m" by (rule date_max_upper)
  ultimately show ?thesis by (rule date_le_antisym)
qed

lemma sort_key_Nil_iff: "sort_key f xs = [] \<longleftrightarrow> xs = []"
proof -
  have "length (sort_key f xs) = length xs" by simp
  then show ?thesis by (metis length_0_conv)
qed

lemma select_series_Nil_iff:
  "select_series weekly reg strat = []
     \<longleftrightarrow> filter (\<lambda>r. region r = reg \<and> fillna_none (stratum r) = or_none strat) weekly = []"
  by (simp add: select_series_def sort_key_Nil_iff)

lemma select_series_sorted:
  "sorted (map (\<lambda>r. date_key (date_reported r))
     (filter (\<lambda>r. date_le (date_reported r) asof) (select_series weekly reg strat)))"
proof -
  have "sorted (map (\<lambda>r. date_key (date_reported r)) (select_series weekly reg strat))"
    by (simp add: select_series_def)
  then show ?thesis by (rule sorted_filter)
qed

section \<open>The estimators without data\<close>

text \<open>
  C4. When no row of the weekly table belongs to the requested (region, stratum) group,
  each of the estimators A, B and C and the blended estimator (with any weights and any
  component settings, on any file system) returns \<open>0.0\<close> and raises nothing.
\<close>

theorem estimate_gap_empty_group:
  assumes "filter (\<lambda>r. region r = reg \<and> fillna_none (stratum r) = or_none strat) weekly = []"
  shows "MethodA_estimate_gap a weekly asof reg strat = Inr 0
       \<and> MethodB_estimate_gap b weekly asof reg strat = Inr 0
       \<and> MethodC_estimate_gap fs c weekly asof reg strat = Inr 0
       \<and> BlendedEstimator_estimate_gap fs blend weekly asof reg strat = Inr 0"
proof -
  from assms have sel: "select_series weekly reg strat = []"
    by (simp add: select_series_Nil_iff)
  have A: "MethodA_estimate_gap a weekly asof reg strat = Inr 0" for a
    by (simp add: MethodA_estimate_gap_def sel)
  have B: "MethodB_estimate_gap b weekly asof reg strat = Inr 0" for b
    by (simp add: MethodB_estimate_gap_def sel)
  have C: "MethodC_estimate_gap fs c weekly asof reg strat = Inr 0" for c
    by (simp add: MethodC_estimate_gap_def sel)
  have "BlendedEstimator_estimate_gap fs blend weekly asof reg strat = Inr 0"
    by (simp add: BlendedEstimator_estimate_gap_def A B C)
  with A B C show ?thesis by simp
qed

theorem estimate_gap_empty_group_witness:
  "filter (\<lambda>r. region r = ''US'' \<and> fillna_none (stratum r) = or_none None) [obs_east] = []
   \<and> MethodA_estimate_gap MethodA_default [obs_east] (Date 2025 8 31) ''US'' None = Inr 0
   \<and> MethodB_estimate_gap MethodB [obs_east] (Date 2025 8 31) ''US'' None = Inr 0
   \<and> MethodC_estimate_gap fs_with_ledger MethodC_default [obs_east] (Date 2025 8 31) ''US'' None = Inr 0
   \<and> BlendedEstimator_estimate_gap fs_with_ledger
        \<lparr>weights = [''A'' \<mapsto> 2, ''B'' \<mapsto> 3], mA = MethodA_default, mB = MethodB, mC = MethodC_default\<rparr>
        [obs_east] (Date 2025 8 31) ''US'' None = Inr 0"
proof -
  have h: "filter (\<lambda>r. region r = ''US'' \<and> fillna_none (stratum r) = or_none None) [obs_east] = []"
    by (simp add: obs_east_def)
  show ?thesis
    using h estimate_gap_empty_group [OF h] by simp
qed

section \<open>The blended estimator\<close>

text \<open>
  C5. Whenever the three component estimators return \<open>a\<close>, \<open>b\<close> and \<open>c\<close> on the
  same inputs, the blended estimator returns \<open>wA * a + wB * b + wC * c\<close>, where each
  weight is the entry of the weight dictionary under \<open>A\<close>, \<open>B\<close>, \<open>C\<close>, or its
  default \<open>0.3\<close>, \<open>0.2\<close>, \<open>0.5\<close> when the entry is missing. The weights are used as
  given: nothing requires them to sum to one and nothing normalises them.
\<close>

theorem blended_weighted_sum:
  assumes "MethodA_estimate_gap (mA self) weekly asof reg strat = Inr a"
      and "MethodB_estimate_gap (mB self) weekly asof reg strat = Inr b"
      and "MethodC_estimate_gap fs (mC self) weekly asof reg strat = Inr c"
  shows "BlendedEstimator_estimate_gap fs self weekly asof reg strat =
           Inr ((case weights self ''A'' of None \<Rightarrow> 0.3 | Some w \<Rightarrow> w) * a
              + (case weights self ''B'' of None \<Rightarrow> 0.2 | Some w \<Rightarrow> w) * b
              + (case weights self ''C'' of None \<Rightarrow> 0.5 | Some w \<Rightarrow> w) * c)"
  using assms by (simp add: BlendedEstimator_estimate_gap_def dict_get_def split: option.splits)

lemma sample_select: "select_series sample_weekly ''US'' None = [obs_jul25, obs_aug01]"
  by (simp add: sample_defs estimator_defs date_defs)

lemma sample_MethodA:
  "MethodA_estimate_gap MethodA_default sample_weekly (Date 2025 8 31) ''US'' None = Inr (750 / 7)"
  by (simp add: sample_defs estimator_defs date_defs Let_def)

lemma sample_MethodB:
  "MethodB_estimate_gap MethodB sample_weekly (Date 2025 8 31) ''US'' None = Inr (1500 / 7)"
  by (simp add: sample_defs estimator_defs date_defs Let_def)

lemma sample_MethodC:
  "MethodC_estimate_gap fs_with_ledger MethodC_default sample_weekly (Date 2025 8 31) ''US'' None
     = Inr 0.13"
  by (simp add: sample_defs estimator_defs date_defs Let_def)

theorem blended_weighted_sum_witness:
  "BlendedEstimator_estimate_gap fs_with_ledger
      \<lparr>weights = Map.empty, mA = MethodA_default, mB = MethodB, mC = MethodC_default\<rparr>
      sample_weekly (Date 2025 8 31) ''US'' None
     = Inr (0.3 * (750 / 7) + 0.2 * (1500 / 7) + 0.5 * 0.13)
   \<and> BlendedEstimator_estimate_gap fs_with_ledger
      \<lparr>weights = [''A'' \<mapsto> 2, ''B'' \<mapsto> 3, ''C'' \<mapsto> 4], mA = MethodA_default, mB = MethodB,
       mC = MethodC_default\<rparr>
      sample_weekly (Date 2025 8 31) ''US'' None
     = Inr (2 * (750 / 7) + 3 * (1500 / 7) + 4 * 0.13)"
  using
    blended_weighted_sum [of "\<lparr>weights = Map.empty, mA = MethodA_default, mB = MethodB,
        mC = MethodC_default\<rparr>" sample_weekly "Date 2025 8 31" "''US''" None "750 / 7"
        "1500 / 7" fs_with_ledger "0.13"]
    blended_weighted_sum [of "\<lparr>weights = [''A'' \<mapsto> 2, ''B'' \<mapsto> 3, ''C'' \<mapsto> 4],
        mA = MethodA_default, mB = MethodB, mC = MethodC_default\<rparr>" sample_weekly
        "Date 2025 8 31" "''US''" None "750 / 7" "1500 / 7" fs_with_ledger "0.13"]
    sample_MethodA sample_MethodB sample_MethodC
  by simp

section \<open>Estimator A\<close>

lemma tail_df_pos_nonempty:
  assumes "0 < n" "xs \<noteq> []"
  shows "tail_df n xs \<noteq> []"
proof -
  from assms have "length xs - nat n < length xs" by (cases xs) auto
  with assms(1) show ?thesis by (simp add: tail_df_def)
qed

lemma tail_df_pos: "0 < n \<Longrightarrow> tail_df n xs = drop (length xs - nat n) xs"
  by (simp add: tail_df_def)

text \<open>
  C6. Let \<open>qual\<close> be the observations of the group dated at or before \<open>asof\<close>, in
  ascending date order, and suppose it is not empty; let \<open>last_reported\<close> be the
  latest of their dates and \<open>recent\<close> the last \<open>lookback_weeks\<close> of them (for a
  positive \<open>lookback_weeks\<close>). Then Estimator A returns
  \<open>sum(delta of recent) / (7 * count of recent)\<close> times the gap-day count
  \<open>max(month_end(asof) - last_reported, 0)\<close>; \<open>qual\<close> is sorted by date, so
  \<open>recent\<close> holds the most recent observations; the default \<open>lookback_weeks\<close> is 4.
\<close>

theorem MethodA_historical_average:
  assumes qual: "qual = filter (\<lambda>r. date_le (date_reported r) asof) (select_series weekly reg strat)"
      and nonempty: "qual \<noteq> []"
      and lookback: "0 < lookback_weeks self"
      and recent: "recent = drop (length qual - nat (lookback_weeks self)) qual"
      and last_mem: "last_reported \<in> set (map date_reported qual)"
      and last_max: "\<forall>r\<in>set qual. date_le (date_reported r) last_reported"
  shows "MethodA_estimate_gap self weekly asof reg strat =
           Inr (sum_list (map delta_week_bcf recent) / (7 * real (length recent))
                * real_of_int (max (date_diff_days (month_end asof) last_reported) 0))
       \<and> sorted (map (\<lambda>r. date_key (date_reported r)) qual)
       \<and> lookback_weeks MethodA_default = 4"
proof -
  from nonempty obtain m where m: "date_max (map date_reported qual) = Some m"
    by (cases "date_max (map date_reported qual)") (auto simp: date_max_None_iff)
  from last_max have "\<forall>d\<in>set (map date_reported qual). date_le d last_reported" by simp
  with m last_mem have m_eq: "m = last_reported" by (rule date_max_unique)
  have g: "gap_days (date_max (map date_reported qual)) (month_end asof)
            = Inr (max (date_diff_days (month_end asof) last_reported) 0)"
    by (simp add: gap_days_def m m_eq)
  have tail: "tail_df (lookback_weeks self) qual = recent"
    using lookback by (simp add: tail_df_pos recent)
  have tail_ne: "recent \<noteq> []"
    using tail_df_pos_nonempty [OF lookback nonempty] tail by simp
  have "MethodA_estimate_gap self weekly asof reg strat =
           Inr (sum_list (map delta_week_bcf recent) / (7 * real (length recent))
                * real_of_int (max (date_diff_days (month_end asof) last_reported) 0))"
    unfolding MethodA_estimate_gap_def Let_def qual [symmetric]
    by (simp add: nonempty g tail tail_ne)
  moreover have "sorted (map (\<lambda>r. date_key (date_reported r)) qual)"
    unfolding qual by (rule select_series_sorted)
  moreover have "lookback_weeks MethodA_default = 4"
    by (simp add: MethodA_default_def)
  ultimately show ?thesis by simp
qed

lemma sample_qualifying:
  "filter (\<lambda>r. date_le (date_reported r) (Date 2025 8 31)) (select_series sample_weekly ''US'' None)
     = [obs_jul25, obs_aug01]"
  by (simp add: sample_select) (simp add: sample_defs date_defs)

theorem MethodA_historical_average_witness:
  "MethodA_estimate_gap MethodA_default sample_weekly (Date 2025 8 31) ''US'' None
     = Inr ((0 + 50) / (7 * 2) * 30)"
proof -
  have q: "[obs_jul25, obs_aug01]
      = filter (\<lambda>r. date_le (date_reported r) (Date 2025 8 31)) (select_series sample_weekly ''US'' None)"
    by (simp add: sample_qualifying)
  have ne: "[obs_jul25, obs_aug01] \<noteq> []" by simp
  have k: "0 < lookback_weeks MethodA_default" by (simp add: MethodA_default_def)
  have r: "[obs_jul25, obs_aug01]
      = drop (length [obs_jul25, obs_aug01] - nat (lookback_weeks MethodA_default)) [obs_jul25, obs_aug01]"
    by (simp add: MethodA_default_def)
  have mem: "Date 2025 8 1 \<in> set (map date_reported [obs_jul25, obs_aug01])"
    by (simp add: sample_defs)
  have mx: "\<forall>r\<in>set [obs_jul25, obs_aug01]. date_le (date_reported r) (Date 2025 8 1)"
    by (simp add: sample_defs date_defs)
  show ?thesis
    using MethodA_historical_average [OF q ne k r mem mx]
    by (simp add: sample_defs date_defs)
qed

section \<open>The rollforward row\<close>

lemma build_monthly_rollforward_Inr:
  assumes "build_monthly_rollforward fs weekly asof ws reg strat = Inr rows"
  obtains beg gap gd and in_month :: "weekly_row list" where
    "rows = [\<lparr>rf_month_end = month_end asof, rf_region = reg, rf_stratum = or_none strat,
              beg_working_gas_bcf = beg,
              est_injections_bcf =
                sum_list (map delta_week_bcf (filter (\<lambda>r. 0 < delta_week_bcf r) in_month)),
              est_withdrawals_bcf =
                - sum_list (map delta_week_bcf (filter (\<lambda>r. delta_week_bcf r < 0) in_month)),
              gap_delta_bcf = gap, rf_gap_days = gd,
              end_working_gas_bcf = beg
                + sum_list (map delta_week_bcf (filter (\<lambda>r. 0 < delta_week_bcf r) in_month))
                - (- sum_list (map delta_week_bcf (filter (\<lambda>r. delta_week_bcf r < 0) in_month)))
                + gap\<rparr>]"
proof -
  define sr where "sr = sort_key (\<lambda>r. date_key (date_reported r))
     (filter (\<lambda>r. region r = reg \<and> fillna_none (stratum r) = or_none strat) weekly)"
  define in_month where "in_month = filter (\<lambda>r. year (date_reported r) = year (month_end asof)
     \<and> month (date_reported r) = month (month_end asof)) sr"
  from assms obtain beg gap gd where
    "rows = [\<lparr>rf_month_end = month_end asof, rf_region = reg, rf_stratum = or_none strat,
              beg_working_gas_bcf = beg,
              est_injections_bcf =
                sum_list (map delta_week_bcf (filter (\<lambda>r. 0 < delta_week_bcf r) in_month)),
              est_withdrawals_bcf =
                - sum_list (map delta_week_bcf (filter (\<lambda>r. delta_week_bcf r < 0) in_month)),
              gap_delta_bcf = gap, rf_gap_days = gd,
              end_working_gas_bcf = beg
                + sum_list (map delta_week_bcf (filter (\<lambda>r. 0 < delta_week_bcf r) in_month))
                - (- sum_list (map delta_week_bcf (filter (\<lambda>r. delta_week_bcf r < 0) in_month)))
                + gap\<rparr>]"
    unfolding build_monthly_rollforward_def Let_def sr_def [symmetric] in_month_def [symmetric]
    by (auto split: sum.splits simp del: filter_filter)
  then show thesis by (rule that)
qed

text \<open>
  C1. Every row that \<^verbatim>\<open>build_monthly_rollforward\<close> returns satisfies
  \<open>end_working_gas_bcf = beg_working_gas_bcf + est_injections_bcf - est_withdrawals_bcf
  + gap_delta_bcf\<close> (exactly, the floats being modelled as reals).
\<close>

theorem rollforward_invariant:
  assumes "build_monthly_rollforward fs weekly asof ws reg strat = Inr rows"
      and "r \<in> set rows"
  shows "end_working_gas_bcf r =
           beg_working_gas_bcf r + est_injections_bcf r - est_withdrawals_bcf r + gap_delta_bcf r"
proof -
  from assms(1) obtain beg gap gd and in_month :: "weekly_row list" where
    "rows = [\<lparr>rf_month_end = month_end asof, rf_region = reg, rf_stratum = or_none strat,
              beg_working_gas_bcf = beg,
              est_injections_bcf =
                sum_list (map delta_week_bcf (filter (\<lambda>r. 0 < delta_week_bcf r) in_month)),
              est_withdrawals_bcf =
                - sum_list (map delta_week_bcf (filter (\<lambda>r. delta_week_bcf r < 0) in_month)),
              gap_delta_bcf = gap, rf_gap_days = gd,
              end_working_gas_bcf = beg
                + sum_list (map delta_week_bcf (filter (\<lambda>r. 0 < delta_week_bcf r) in_month))
                - (- sum_list (map delta_week_bcf (filter (\<lambda>r. delta_week_bcf r < 0) in_month)))
                + gap\<rparr>]"
    by (rule build_monthly_rollforward_Inr)
  with assms(2) show ?thesis by simp
qed

lemma sample_rollforward:
  "build_monthly_rollforward fs_without_ledger sample_weekly (Date 2025 8 31) default_weights ''US'' None
     = Inr [\<lparr>rf_month_end = Date 2025 8 31, rf_region = ''US'', rf_stratum = ''none'',
             beg_working_gas_bcf = 3150, est_injections_bcf = 50, est_withdrawals_bcf = 0,
             gap_delta_bcf = 75, rf_gap_days = 30, end_working_gas_bcf = 3275\<rparr>]"
  by (simp add: sample_defs date_defs estimator_defs builder_defs Let_def)

theorem rollforward_invariant_witness:
  "end_working_gas_bcf
      \<lparr>rf_month_end = Date 2025 8 31, rf_region = ''US'', rf_stratum = ''none'',
       beg_working_gas_bcf = 3150, est_injections_bcf = 50, est_withdrawals_bcf = 0,
       gap_delta_bcf = 75, rf_gap_days = 30, end_working_gas_bcf = 3275\<rparr>
     = 3150 + 50 - 0 + 75"
  using rollforward_invariant [OF sample_rollforward] by simp

text \<open>
  C10. Every row that \<^verbatim>\<open>build_monthly_rollforward\<close> returns has
  \<open>est_injections_bcf \<ge> 0\<close> and \<open>est_withdrawals_bcf \<ge> 0\<close>: the first sums the
  positive deltas of the observations reported in the target month, the second is minus
  the sum of the negative ones.
\<close>

theorem rollforward_flows_nonneg:
  assumes "build_monthly_rollforward fs weekly asof ws reg strat = Inr rows"
      and "r \<in> set rows"
  shows "0 \<le> est_injections_bcf r \<and> 0 \<le> est_withdrawals_bcf r"
proof -
  from assms(1) obtain beg gap gd and in_month :: "weekly_row list" where
    rows: "rows = [\<lparr>rf_month_end = month_end asof, rf_region = reg, rf_stratum = or_none strat,
              beg_working_gas_bcf = beg,
              est_injections_bcf =
                sum_list (map delta_week_bcf (filter (\<lambda>r. 0 < delta_week_bcf r) in_month)),
              est_withdrawals_bcf =
                - sum_list (map delta_week_bcf (filter (\<lambda>r. delta_week_bcf r < 0) in_month)),
              gap_delta_bcf = gap, rf_gap_days = gd,
              end_working_gas_bcf = beg
                + sum_list (map delta_week_bcf (filter (\<lambda>r. 0 < delta_week_bcf r) in_month))
                - (- sum_list (map delta_week_bcf (filter (\<lambda>r. delta_week_bcf r < 0) in_month)))
                + gap\<rparr>]"
    by (rule build_monthly_rollforward_Inr)
  have pos: "0 \<le> sum_list (map delta_week_bcf (filter (\<lambda>r. 0 < delta_week_bcf r) in_month))"
    by (rule sum_list_nonneg) auto
  have neg: "sum_list (map delta_week_bcf (filter (\<lambda>r. delta_week_bcf r < 0) in_month)) \<le> 0"
    by (rule sum_list_nonpos) auto
  from rows assms(2) pos neg show ?thesis by simp
qed

theorem rollforward_flows_nonneg_witness:
  "(0::real) \<le> est_injections_bcf
      \<lparr>rf_month_end = Date 2025 8 31, rf_region = ''US'', rf_stratum = ''none'',
       beg_working_gas_bcf = 3150, est_injections_bcf = 50, est_withdrawals_bcf = 0,
       gap_delta_bcf = 75, rf_gap_days = 30, end_working_gas_bcf = 3275\<rparr>
   \<and> (0::real) \<le> est_withdrawals_bcf
      \<lparr>rf_month_end = Date 2025 8 31, rf_region = ''US'', rf_stratum = ''none'',
       beg_working_gas_bcf = 3150, est_injections_bcf = 50, est_withdrawals_bcf = 0,
       gap_delta_bcf = 75, rf_gap_days = 30, end_working_gas_bcf = 3275\<rparr>"
  using rollforward_flows_nonneg [OF sample_rollforward] by simp

section \<open>A group without an observation at or before the as-of date\<close>

text \<open>
  C7. The specification wants the gap-day count, every estimator and the rollforward
  builder to degrade to \<open>0.0\<close>, without an exception, when the group has observations
  but none dated at or before \<open>asof\<close>. Estimators A and B filter by date before they
  test for emptiness and do return \<open>0.0\<close>. Estimator C tests for emptiness before it
  filters, so its last reported date is \<^verbatim>\<open>NaT\<close> and the comparison with the month
  end raises; the builder subtracts the \<^verbatim>\<open>NaT\<close> from the month end and raises too.
  Evaluated on one observation dated 22 August 2025 with \<open>asof\<close> 15 August 2025.
\<close>

theorem no_qualifying_date_raises:
  "MethodA_estimate_gap MethodA_default [obs_aug22] (Date 2025 8 15) ''US'' None = Inr 0
   \<and> MethodB_estimate_gap MethodB [obs_aug22] (Date 2025 8 15) ''US'' None = Inr 0
   \<and> MethodC_estimate_gap fs_without_ledger MethodC_default [obs_aug22] (Date 2025 8 15) ''US'' None
       = Inl TypeError
   \<and> BlendedEstimator_estimate_gap fs_without_ledger
        \<lparr>weights = Map.empty, mA = MethodA_default, mB = MethodB, mC = MethodC_default\<rparr>
        [obs_aug22] (Date 2025 8 15) ''US'' None = Inl TypeError
   \<and> last_reported_friday [obs_aug22] (Date 2025 8 15) = None
   \<and> gap_days (last_reported_friday [obs_aug22] (Date 2025 8 15)) (month_end (Date 2025 8 15))
       = Inl TypeError
   \<and> build_monthly_rollforward fs_without_ledger [obs_aug22] (Date 2025 8 15) default_weights
        ''US'' None = Inl TypeError"
  by (simp add: sample_defs date_defs estimator_defs builder_defs Let_def)

section \<open>The beginning volume\<close>

text \<open>
  The date the builder calls \<^verbatim>\<open>prev_me\<close> is the end of the target month itself: a
  month end is never the first of a month, so subtracting \<^verbatim>\<open>MonthBegin(1)\<close> from it
  gives the first of the same month.
\<close>

lemma days_in_month_ge: "28 \<le> days_in_month y m"
  by (simp add: days_in_month_def)

lemma prev_me_is_month_end: "month_end (minus_MonthBegin (month_end d)) = month_end d"
proof -
  have "1 < days_in_month (year d) (month d)"
    using days_in_month_ge [of "year d" "month d"] by simp
  then show ?thesis
    by (simp add: month_end_def minus_MonthBegin_def)
qed

text \<open>
  C8. The specification wants \<open>beg_working_gas_bcf\<close> to be the volume of the group's
  observation at or before the previous month's end, and \<open>0.0\<close> without an exception
  when there is none. With the observations of 25 July (3100) and 1 August (3150) and
  \<open>asof\<close> 31 August 2025 the builder returns 3150, the volume of the observation inside
  the target month, not the 3100 at or before 31 July. With only the observation of
  1 August it returns 3150, not 0.0; with only an observation of 5 September the group
  is not empty and the builder raises \<^verbatim>\<open>TypeError\<close>.
\<close>

theorem beginning_volume_not_previous_month_end:
  "month_end (minus_MonthBegin (month_end (Date 2025 8 31))) = Date 2025 8 31
   \<and> map_sum id (map beg_working_gas_bcf)
        (build_monthly_rollforward fs_without_ledger [obs_aug01, obs_jul25] (Date 2025 8 31)
           default_weights ''US'' None) = Inr [3150]
   \<and> map_sum id (map beg_working_gas_bcf)
        (build_monthly_rollforward fs_without_ledger [obs_aug01] (Date 2025 8 31)
           default_weights ''US'' None) = Inr [3150]
   \<and> build_monthly_rollforward fs_without_ledger [obs_sep05] (Date 2025 8 31)
        default_weights ''US'' None = Inl TypeError"
  by (simp add: sample_defs date_defs estimator_defs builder_defs Let_def)

section \<open>Dependence on the ledger file\<close>

lemma MethodC_estimate_gap_cong:
  assumes "fs1 (ops_path self) = fs2 (ops_path self)"
  shows "MethodC_estimate_gap fs1 self weekly asof reg strat
       = MethodC_estimate_gap fs2 self weekly asof reg strat"
  unfolding MethodC_estimate_gap_def assms by (rule refl)

lemma BlendedEstimator_estimate_gap_cong:
  assumes "fs1 (ops_path (mC self)) = fs2 (ops_path (mC self))"
  shows "BlendedEstimator_estimate_gap fs1 self weekly asof reg strat
       = BlendedEstimator_estimate_gap fs2 self weekly asof reg strat"
  unfolding BlendedEstimator_estimate_gap_def
    MethodC_estimate_gap_cong [of fs1 "mC self" fs2, OF assms]
  by (rule refl)

text \<open>
  C9, as stated, fails: the builder calls Estimator C, which reads the ledger file
  \<^verbatim>\<open>data/ops/ops_volumes.csv\<close>, so two calls with the same arguments differ when the
  file does.
\<close>

theorem rollforward_depends_on_ledger_file:
  "build_monthly_rollforward fs_with_ledger sample_weekly (Date 2025 8 31) default_weights ''US'' None
   \<noteq> build_monthly_rollforward fs_without_ledger sample_weekly (Date 2025 8 31) default_weights
       ''US'' None"
  by (simp add: sample_defs date_defs estimator_defs builder_defs Let_def)

text \<open>
  C9, amended. Two calls of \<^verbatim>\<open>build_monthly_rollforward\<close> with the same observations,
  as-of date, weights, region and stratum return the same result whenever the ledger file
  \<^verbatim>\<open>data/ops/ops_volumes.csv\<close> is the same for both (the same rows, or absent for
  both): the result is a function of the arguments and of that file, and of nothing else
  of the file system.
\<close>

theorem rollforward_deterministic_given_ledger:
  assumes "fs1 ''data/ops/ops_volumes.csv'' = fs2 ''data/ops/ops_volumes.csv''"
  shows "build_monthly_rollforward fs1 weekly asof ws reg strat
       = build_monthly_rollforward fs2 weekly asof ws reg strat"
proof -
  have blend:
    "BlendedEstimator_estimate_gap fs1
        \<lparr>weights = w, mA = a, mB = b, mC = MethodC_default\<rparr> weekly asof reg strat
      = BlendedEstimator_estimate_gap fs2
        \<lparr>weights = w, mA = a, mB = b, mC = MethodC_default\<rparr> weekly asof reg strat"
    for w a b
    by (rule BlendedEstimator_estimate_gap_cong) (simp add: MethodC_default_def assms)
  show ?thesis
    unfolding build_monthly_rollforward_def Let_def blend by (rule refl)
qed

theorem rollforward_deterministic_given_ledger_witness:
  "fs_with_ledger ''data/ops/ops_volumes.csv'' = fs_with_ledger_and_other ''data/ops/ops_volumes.csv''
   \<and> fs_with_ledger ''data/ops/other.csv'' \<noteq> fs_with_ledger_and_other ''data/ops/other.csv''
   \<and> build_monthly_rollforward fs_with_ledger sample_weekly (Date 2025 8 31) default_weights ''US'' None
     = build_monthly_rollforward fs_with_ledger_and_other sample_weekly (Date 2025 8 31)
         default_weights ''US'' None"
proof -
  have h: "fs_with_ledger ''data/ops/ops_volumes.csv''
         = fs_with_ledger_and_other ''data/ops/ops_volumes.csv''"
    by (simp add: fs_with_ledger_def fs_with_ledger_and_other_def)
  have d: "fs_with_ledger ''data/ops/other.csv'' \<noteq> fs_with_ledger_and_other ''data/ops/other.csv''"
    by (simp add: fs_with_ledger_def fs_with_ledger_and_other_def)
  show ?thesis
    using h d rollforward_deterministic_given_ledger [of fs_with_ledger fs_with_ledger_and_other,
        OF h, of sample_weekly "Date 2025 8 31" default_weights "''US''" None]
    by simp
qed

end
